theory Spec2Isabelle
  imports Main
begin

section \<open>Python strings and exceptions\<close>

text \<open>
  A Python \<open>str\<close> is modelled as a \<open>string\<close>: a list of 8-bit characters, each read as
  the code point of the same number (so the model covers the strings whose code points
  are below 256). An exception object is its class name with the text \<open>str(e)\<close> gives.
\<close>

datatype pyexc = PyExc (exc_class: string) (exc_str: string)

definition RuntimeError :: "string \<Rightarrow> pyexc" where
  "RuntimeError msg = PyExc ''RuntimeError'' msg"

definition IndexError :: pyexc where
  "IndexError = PyExc ''IndexError'' ''list index out of range''"

definition AttributeError :: pyexc where
  "AttributeError = PyExc ''AttributeError'' ''NoneType object has no such attribute''"

text \<open>The code points below 256 for which \<open>str.isspace()\<close> holds; \<open>str.strip()\<close>
  removes exactly these from both ends.\<close>

definition is_space :: "char \<Rightarrow> bool" where
  "is_space c = (c \<in> set [CHR 0x09, CHR 0x0A, CHR 0x0B, CHR 0x0C, CHR 0x0D,
                            CHR 0x1C, CHR 0x1D, CHR 0x1E, CHR 0x1F, CHR 0x20,
                            CHR 0x85, CHR 0xA0])"

definition strip :: "string \<Rightarrow> string" where
  "strip s = rev (dropWhile is_space (rev (dropWhile is_space s)))"

text \<open>\<open>s.rstrip("/")\<close>: every trailing slash is removed.\<close>

definition rstrip_slash :: "string \<Rightarrow> string" where
  "rstrip_slash s = rev (dropWhile (\<lambda>c. c = CHR ''/'') (rev s))"

definition startswith :: "string \<Rightarrow> string \<Rightarrow> bool" where
  "startswith s p = (take (length p) s = p)"

definition endswith :: "string \<Rightarrow> string \<Rightarrow> bool" where
  "endswith s p = (length p \<le> length s \<and> drop (length s - length p) s = p)"

text \<open>\<open>s.split(sep, 1)\<close> for a non-empty separator: the text before and after the
  leftmost occurrence of \<open>sep\<close>, or \<open>s\<close> alone when there is none.\<close>

fun partition_at :: "string \<Rightarrow> string \<Rightarrow> (string \<times> string) option" where
  "partition_at sep [] = None"
| "partition_at sep (c # cs) =
     (if startswith (c # cs) sep then Some ([], drop (length sep) (c # cs))
      else (case partition_at sep cs of
              None \<Rightarrow> None
            | Some (a, b) \<Rightarrow> Some (c # a, b)))"

definition split1 :: "string \<Rightarrow> string \<Rightarrow> string list" where
  "split1 s sep = (case partition_at sep s of None \<Rightarrow> [s] | Some (a, b) \<Rightarrow> [a, b])"

text \<open>\<open>xs[i]\<close> for an index that is not negative; out of range raises.\<close>

definition index :: "'a list \<Rightarrow> nat \<Rightarrow> pyexc + 'a" where
  "index xs i = (if i < length xs then Inr (xs ! i) else Inl IndexError)"

text \<open>\<open>sep.join(xs)\<close>.\<close>

fun join :: "string \<Rightarrow> string list \<Rightarrow> string" where
  "join sep [] = []"
| "join sep [x] = x"
| "join sep (x # y # ys) = x @ sep @ join sep (y # ys)"

section \<open>Candidate URLs\<close>

text \<open>
  \<open>re.search(r"/(device|fsapi)(/)?$", s)\<close>. Without \<open>re.MULTILINE\<close> the anchor \<open>$\<close>
  matches at the end of the string and also just before a newline that ends it.
\<close>

definition ends_in_root :: "string \<Rightarrow> bool" where
  "ends_in_root s = (endswith s ''/device'' \<or> endswith s ''/fsapi''
                     \<or> endswith s ''/device/'' \<or> endswith s ''/fsapi/'')"

definition path_given :: "string \<Rightarrow> bool" where
  "path_given s = (ends_in_root s \<or> (s \<noteq> [] \<and> last s = CHR 0x0A \<and> ends_in_root (butlast s)))"

text \<open>Lines 69-70: the scheme is prepended unless one of the two schemes is there.\<close>

definition with_scheme :: "string \<Rightarrow> string" where
  "with_scheme s = (if startswith s ''http://'' \<or> startswith s ''https://'' then s
                    else ''http://'' @ s)"

text \<open>Lines 85-88: the loop that keeps the first occurrence of each candidate.\<close>

fun dedupe :: "string list \<Rightarrow> string set \<Rightarrow> string list \<Rightarrow> string list" where
  "dedupe [] seen uniq = uniq"
| "dedupe (c # cs) seen uniq =
     (if c \<notin> seen then dedupe cs (insert c seen) (uniq @ [c]) else dedupe cs seen uniq)"

definition normalize_candidates :: "string \<Rightarrow> pyexc + string list" where
  "normalize_candidates user_input =
     (let s = strip user_input in
      if s = [] then Inr []
      else
        let s = with_scheme s in
        if path_given s then Inr [s]
        else
          let host_port = rstrip_slash s in
          (case index (split1 host_port ''//'') 1 of
             Inl e \<Rightarrow> Inl e
           | Inr host_only \<Rightarrow>
               let has_port = (CHR '':'' \<in> set host_only);
                   candidates =
                     [if has_port then host_port @ ''/device'' else host_port @ '':80/device'',
                      if has_port then host_port @ ''/fsapi'' else host_port @ '':80/fsapi'',
                      host_port]
               in Inr (dedupe candidates {} [])))"

section \<open>The device library\<close>

text \<open>
  The \<open>afsapi\<close> library is not part of the repository. It is taken as a parameter: a
  record of what the service uses of it, over a type \<open>'w\<close> of states of everything
  outside the service (the radio, the network), a type \<open>'h\<close> of \<open>AFSAPI\<close> objects and a
  type \<open>'v\<close> of the values its methods return. Every library call returns a value or
  raises an \<open>Exception\<close>, and may change the outside state. \<open>installed\<close> says that the
  import at lines 26-29 succeeded; \<open>to_bool\<close> and \<open>to_int\<close> are Python's \<open>bool()\<close> and
  \<open>int()\<close> on the library's values.
\<close>

datatype 'v command =
    GetFriendlyName | GetPower | SetPower bool | GetVolume | SetVolume int
  | GetModes | SetMode string | GetPresets | RecallPreset 'v

record ('w, 'h, 'v) afsapi =
  installed :: bool
  create :: "string \<Rightarrow> int \<Rightarrow> int \<Rightarrow> 'w \<Rightarrow> (pyexc + 'h) \<times> 'w"
  invoke :: "'h \<Rightarrow> 'v command \<Rightarrow> 'w \<Rightarrow> (pyexc + 'v) \<times> 'w"
  to_bool :: "'v \<Rightarrow> bool"
  to_int :: "'v \<Rightarrow> pyexc + int"

text \<open>
  The calls the service makes to the library are counted: the device state carries,
  next to the outside state, the list of the library calls made so far, each with its
  outcome (the object a successful \<open>AFSAPI.create\<close> returned; whether a method call
  returned).
\<close>

datatype ('h, 'v) event =
    Created string int int "'h option"
  | Called 'h "'v command" bool

record ('w, 'h, 'v) device =
  world :: 'w
  calls :: "('h, 'v) event list"

definition call_create ::
  "('w, 'h, 'v) afsapi \<Rightarrow> string \<Rightarrow> int \<Rightarrow> int \<Rightarrow> ('w, 'h, 'v) device
     \<Rightarrow> (pyexc + 'h) \<times> ('w, 'h, 'v) device" where
  "call_create lib base p t d =
     (case create lib base p t (world d) of
        (Inl e, w) \<Rightarrow> (Inl e, \<lparr>world = w, calls = calls d @ [Created base p t None]\<rparr>)
      | (Inr h, w) \<Rightarrow> (Inr h, \<lparr>world = w, calls = calls d @ [Created base p t (Some h)]\<rparr>))"

definition call_method ::
  "('w, 'h, 'v) afsapi \<Rightarrow> 'h \<Rightarrow> 'v command \<Rightarrow> ('w, 'h, 'v) device
     \<Rightarrow> (pyexc + 'v) \<times> ('w, 'h, 'v) device" where
  "call_method lib h c d =
     (case invoke lib h c (world d) of
        (Inl e, w) \<Rightarrow> (Inl e, \<lparr>world = w, calls = calls d @ [Called h c False]\<rparr>)
      | (Inr v, w) \<Rightarrow> (Inr v, \<lparr>world = w, calls = calls d @ [Called h c True]\<rparr>))"

section \<open>RadioService\<close>

text \<open>The fields of \<open>RadioService\<close>; \<open>loop\<close> says that \<open>_loop\<close> and \<open>_thread\<close> exist.\<close>

record 'h radio_service =
  loop :: bool
  api :: "'h option"
  connected :: bool
  url_used :: "string option"
  pin :: int
  timeout :: int

definition init :: "'h radio_service" where
  "init = \<lparr>loop = False, api = None, connected = False, url_used = None,
            pin = 1234, timeout = 2\<rparr>"

definition ensure_loop :: "'h radio_service \<Rightarrow> 'h radio_service" where
  "ensure_loop s = (if loop s then s else s\<lparr>loop := True\<rparr>)"

text \<open>
  \<open>_run_coro\<close>: the coroutine runs on the service's loop and the caller waits for its
  value or its exception. A coroutine is a function on the device state.
\<close>

definition run_coro ::
  "'h radio_service \<Rightarrow> (('w, 'h, 'v) device \<Rightarrow> (pyexc + 'a) \<times> ('w, 'h, 'v) device)
     \<Rightarrow> ('w, 'h, 'v) device \<Rightarrow> (pyexc + 'a) \<times> 'h radio_service \<times> ('w, 'h, 'v) device" where
  "run_coro s coro d = (case coro d of (r, d') \<Rightarrow> (r, ensure_loop s, d'))"

text \<open>Lines 114-117, the coroutine \<open>_create\<close>: create the object, then probe it.\<close>

definition create_probe ::
  "('w, 'h, 'v) afsapi \<Rightarrow> string \<Rightarrow> int \<Rightarrow> int \<Rightarrow> ('w, 'h, 'v) device
     \<Rightarrow> (pyexc + 'h) \<times> ('w, 'h, 'v) device" where
  "create_probe lib base p t d =
     (case call_create lib base p t d of
        (Inl e, d1) \<Rightarrow> (Inl e, d1)
      | (Inr h, d1) \<Rightarrow>
          (case call_method lib h GetFriendlyName d1 of
             (Inl e, d2) \<Rightarrow> (Inl e, d2)
           | (Inr name, d2) \<Rightarrow> (Inr h, d2)))"

text \<open>Lines 112-125, the loop over the candidates, with \<open>last_err\<close>.\<close>

fun connect_loop ::
  "('w, 'h, 'v) afsapi \<Rightarrow> 'h radio_service \<Rightarrow> string list \<Rightarrow> pyexc option
     \<Rightarrow> ('w, 'h, 'v) device \<Rightarrow> 'h radio_service \<times> pyexc option \<times> ('w, 'h, 'v) device" where
  "connect_loop lib s [] last_err d = (s, last_err, d)"
| "connect_loop lib s (base # rest) last_err d =
     (case run_coro s (create_probe lib base (pin s) (timeout s)) d of
        (Inr h, s1, d1) \<Rightarrow>
          (s1\<lparr>api := Some h, connected := True, url_used := Some base\<rparr>, last_err, d1)
      | (Inl e, s1, d1) \<Rightarrow> connect_loop lib s1 rest (Some e) d1)"

text \<open>\<open>str(last_err)\<close>, where \<open>last_err\<close> is \<open>None\<close> or an exception.\<close>

definition str_err :: "pyexc option \<Rightarrow> string" where
  "str_err e = (case e of None \<Rightarrow> ''None'' | Some x \<Rightarrow> exc_str x)"

definition connect_failed :: "string list \<Rightarrow> pyexc option \<Rightarrow> pyexc" where
  "connect_failed tried last_err =
     RuntimeError (''Could not connect to the radio. Tried: '' @ join '', '' tried
                   @ ''. Last error: '' @ str_err last_err)"

text \<open>
  \<open>connect\<close>. The name lookup of lines 98-105 keeps no result and swallows every
  exception, so it has no part in the model. The candidates are computed when the loop
  starts, outside any \<open>try\<close>: an exception of \<open>_normalize_candidates\<close> leaves \<open>connect\<close>
  after the reset.
\<close>

definition connect ::
  "('w, 'h, 'v) afsapi \<Rightarrow> 'h radio_service \<Rightarrow> string \<Rightarrow> int \<Rightarrow> int \<Rightarrow> ('w, 'h, 'v) device
     \<Rightarrow> (pyexc + unit) \<times> 'h radio_service \<times> ('w, 'h, 'v) device" where
  "connect lib s user_url p t d =
     (if \<not> installed lib then
        (Inl (RuntimeError
           ''Dependency missing: install with `pip install afsapi` in your venv.''), s, d)
      else
        let s = s\<lparr>pin := p, timeout := t\<rparr>;
            s = s\<lparr>api := None, connected := False, url_used := None\<rparr>
        in (case normalize_candidates user_url of
              Inl e \<Rightarrow> (Inl e, s, d)
            | Inr candidates \<Rightarrow>
                (case connect_loop lib s candidates None d of
                   (s, last_err, d) \<Rightarrow>
                     if \<not> connected s then (Inl (connect_failed candidates last_err), s, d)
                     else (Inr (), s, d))))"

definition is_connected :: "'h radio_service \<Rightarrow> bool" where
  "is_connected s = (connected s \<and> api s \<noteq> None)"

subsection \<open>The guarded wrappers\<close>

definition NotConnected :: pyexc where
  "NotConnected = RuntimeError ''Not connected to a radio.''"

definition require :: "'h radio_service \<Rightarrow> pyexc + unit" where
  "require s = (if \<not> is_connected s then Inl NotConnected else Inr ())"

text \<open>The coroutine \<open>_c\<close> of a wrapper: a method of \<open>self._api\<close>, read when it runs.\<close>

definition api_coro ::
  "('w, 'h, 'v) afsapi \<Rightarrow> 'h radio_service \<Rightarrow> 'v command \<Rightarrow> ('w, 'h, 'v) device
     \<Rightarrow> (pyexc + 'v) \<times> ('w, 'h, 'v) device" where
  "api_coro lib s c d =
     (case api s of None \<Rightarrow> (Inl AttributeError, d) | Some h \<Rightarrow> call_method lib h c d)"

text \<open>What the nine wrappers share: \<open>self._require()\<close>, then \<open>self._run_coro(_c())\<close>.\<close>

definition guarded ::
  "('w, 'h, 'v) afsapi \<Rightarrow> 'h radio_service \<Rightarrow> 'v command \<Rightarrow> ('w, 'h, 'v) device
     \<Rightarrow> (pyexc + 'v) \<times> 'h radio_service \<times> ('w, 'h, 'v) device" where
  "guarded lib s c d =
     (case require s of
        Inl e \<Rightarrow> (Inl e, s, d)
      | Inr u \<Rightarrow> run_coro s (api_coro lib s c) d)"

definition get_friendly_name ::
  "('w, 'h, 'v) afsapi \<Rightarrow> 'h radio_service \<Rightarrow> ('w, 'h, 'v) device
     \<Rightarrow> (pyexc + 'v) \<times> 'h radio_service \<times> ('w, 'h, 'v) device" where
  "get_friendly_name lib s d = guarded lib s GetFriendlyName d"

definition get_power ::
  "('w, 'h, 'v) afsapi \<Rightarrow> 'h radio_service \<Rightarrow> ('w, 'h, 'v) device
     \<Rightarrow> (pyexc + bool) \<times> 'h radio_service \<times> ('w, 'h, 'v) device" where
  "get_power lib s d =
     (case guarded lib s GetPower d of
        (Inl e, s', d') \<Rightarrow> (Inl e, s', d')
      | (Inr v, s', d') \<Rightarrow> (Inr (to_bool lib v), s', d'))"

definition set_power ::
  "('w, 'h, 'v) afsapi \<Rightarrow> 'h radio_service \<Rightarrow> bool \<Rightarrow> ('w, 'h, 'v) device
     \<Rightarrow> (pyexc + 'v) \<times> 'h radio_service \<times> ('w, 'h, 'v) device" where
  "set_power lib s on d = guarded lib s (SetPower on) d"

definition get_volume ::
  "('w, 'h, 'v) afsapi \<Rightarrow> 'h radio_service \<Rightarrow> ('w, 'h, 'v) device
     \<Rightarrow> (pyexc + int) \<times> 'h radio_service \<times> ('w, 'h, 'v) device" where
  "get_volume lib s d =
     (case guarded lib s GetVolume d of
        (Inl e, s', d') \<Rightarrow> (Inl e, s', d')
      | (Inr v, s', d') \<Rightarrow>
          (case to_int lib v of Inl e \<Rightarrow> (Inl e, s', d') | Inr i \<Rightarrow> (Inr i, s', d')))"

definition set_volume ::
  "('w, 'h, 'v) afsapi \<Rightarrow> 'h radio_service \<Rightarrow> int \<Rightarrow> ('w, 'h, 'v) device
     \<Rightarrow> (pyexc + 'v) \<times> 'h radio_service \<times> ('w, 'h, 'v) device" where
  "set_volume lib s val d = guarded lib s (SetVolume val) d"

definition get_modes ::
  "('w, 'h, 'v) afsapi \<Rightarrow> 'h radio_service \<Rightarrow> ('w, 'h, 'v) device
     \<Rightarrow> (pyexc + 'v) \<times> 'h radio_service \<times> ('w, 'h, 'v) device" where
  "get_modes lib s d = guarded lib s GetModes d"

definition set_mode ::
  "('w, 'h, 'v) afsapi \<Rightarrow> 'h radio_service \<Rightarrow> string \<Rightarrow> ('w, 'h, 'v) device
     \<Rightarrow> (pyexc + 'v) \<times> 'h radio_service \<times> ('w, 'h, 'v) device" where
  "set_mode lib s mode d = guarded lib s (SetMode mode) d"

definition get_presets ::
  "('w, 'h, 'v) afsapi \<Rightarrow> 'h radio_service \<Rightarrow> ('w, 'h, 'v) device
     \<Rightarrow> (pyexc + 'v) \<times> 'h radio_service \<times> ('w, 'h, 'v) device" where
  "get_presets lib s d = guarded lib s GetPresets d"

definition recall_preset ::
  "('w, 'h, 'v) afsapi \<Rightarrow> 'h radio_service \<Rightarrow> 'v \<Rightarrow> ('w, 'h, 'v) device
     \<Rightarrow> (pyexc + 'v) \<times> 'h radio_service \<times> ('w, 'h, 'v) device" where
  "recall_preset lib s preset d = guarded lib s (RecallPreset preset) d"

subsection \<open>Names the class does not define\<close>


section \<open>Notions the properties are stated with\<close>

text \<open>
  The attempts of a connect, one after the other from a device state, when each of them
  fails: the exceptions in order and the device state after the last one. \<open>None\<close> when
  one of the attempts succeeds.
\<close>

fun failed_attempts ::
  "('w, 'h, 'v) afsapi \<Rightarrow> int \<Rightarrow> int \<Rightarrow> string list \<Rightarrow> ('w, 'h, 'v) device
     \<Rightarrow> (pyexc list \<times> ('w, 'h, 'v) device) option" where
  "failed_attempts lib p t [] d = Some ([], d)"
| "failed_attempts lib p t (base # rest) d =
     (case create_probe lib base p t d of
        (Inr h, d1) \<Rightarrow> None
      | (Inl e, d1) \<Rightarrow>
          (case failed_attempts lib p t rest d1 of
             None \<Rightarrow> None
           | Some (es, d2) \<Rightarrow> Some (e # es, d2)))"

definition last_of :: "pyexc list \<Rightarrow> pyexc option" where
  "last_of es = (if es = [] then None else Some (last es))"

text \<open>The URLs of the \<open>AFSAPI.create\<close> calls of a call list, in order.\<close>

fun created_urls :: "('h, 'v) event list \<Rightarrow> string list" where
  "created_urls [] = []"
| "created_urls (Created base p t r # evs) = base # created_urls evs"
| "created_urls (Called h c ok # evs) = created_urls evs"







text \<open>
  A library for the examples: the outside state counts the library calls, the object of
  a URL is the URL, \<open>create\<close> succeeds on the URLs of \<open>reachable\<close>, and a method call
  returns as long as fewer than \<open>answers\<close> library calls were made before it.
\<close>

definition fake_radio :: "string list \<Rightarrow> nat \<Rightarrow> (nat, string, string) afsapi" where
  "fake_radio reachable answers =
     \<lparr>installed = True,
      create = (\<lambda>base p t n.
        (if base \<in> set reachable then Inr base
         else Inl (PyExc ''ConnectionError'' (''cannot reach '' @ base)), Suc n)),
      invoke = (\<lambda>h c n.
        (if n < answers then Inr ''ok''
         else Inl (PyExc ''TimeoutError'' (''no answer from '' @ h)), Suc n)),
      to_bool = (\<lambda>v. v \<noteq> []),
      to_int = (\<lambda>v. Inl (PyExc ''ValueError'' (''invalid literal for int(): '' @ v)))\<rparr>"

section \<open>Facts about the string functions\<close>

lemma rstrip_slash_append:
  "rstrip_slash (a @ b) =
     (if \<forall>c\<in>set b. c = CHR ''/'' then rstrip_slash a else a @ rstrip_slash b)"
  by (simp add: rstrip_slash_def dropWhile_append)

lemma dedupe_subset: "set (dedupe cs seen uniq) \<subseteq> set cs \<union> set uniq"
proof (induction cs arbitrary: seen uniq)
  case Nil
  then show ?case by simp
next
  case (Cons c cs)
  show ?case
  proof (cases "c \<in> seen")
    case True
    then show ?thesis using Cons.IH[of seen uniq] by auto
  next
    case False
    then show ?thesis using Cons.IH[of "insert c seen" "uniq @ [c]"] by auto
  qed
qed

lemma startswith_split: "startswith s p \<Longrightarrow> s = p @ drop (length p) s"
  unfolding startswith_def by (metis append_take_drop_id)

lemma startswith_append: "startswith (p @ x) p"
  by (simp add: startswith_def)

lemma https_not_http: "\<not> startswith (''https://'' @ x) ''http://''"
  by (simp add: startswith_def)

lemma rstrip_https:
  "rstrip_slash (''https://'' @ r) = ''https:'' \<or>
   rstrip_slash (''https://'' @ r) = ''https://'' @ rstrip_slash r"
proof -
  have "rstrip_slash (''https://'' @ r) =
          (if \<forall>c\<in>set r. c = CHR ''/'' then rstrip_slash ''https://''
           else ''https://'' @ rstrip_slash r)"
    by (rule rstrip_slash_append)
  moreover have "rstrip_slash ''https://'' = ''https:''"
    by (simp add: rstrip_slash_def)
  ultimately show ?thesis
    by metis
qed

lemma no_authority: "index (split1 ''https:'' ''//'') 1 = Inl IndexError"
  by (simp add: index_def split1_def startswith_def)

lemma with_scheme_empty: "\<not> ends_in_root (with_scheme [])"
  by (simp add: with_scheme_def startswith_def ends_in_root_def endswith_def)

lemma candidates_https:
  assumes "normalize_candidates u = Inr cs" "strip u = ''https://'' @ r" "c \<in> set cs"
  shows "\<exists>x. c = ''https://'' @ x"
proof -
  let ?s = "''https://'' @ r"
  have ws: "with_scheme ?s = ?s" by (simp add: with_scheme_def startswith_def)
  show ?thesis
  proof (cases "path_given ?s")
    case True
    with assms ws show ?thesis by (auto simp add: normalize_candidates_def)
  next
    case False
    from rstrip_https[of r] show ?thesis
    proof
      assume "rstrip_slash ?s = ''https:''"
      with assms False ws no_authority show ?thesis
        by (simp add: normalize_candidates_def)
    next
      assume hp: "rstrip_slash ?s = ''https://'' @ rstrip_slash r"
      from assms(1) assms(2) False ws obtain cands where
        cs: "cs = dedupe cands {} []" and
        cands: "\<forall>c\<in>set cands. \<exists>x. c = rstrip_slash ?s @ x"
        by (auto simp add: normalize_candidates_def Let_def split: sum.splits
            simp del: dedupe.simps)
      from cs dedupe_subset[of cands "{}" "[]"] assms(3) have "c \<in> set cands" by auto
      with cands obtain x where "c = rstrip_slash ?s @ x" by blast
      with hp show ?thesis by simp
    qed
  qed
qed

lemma default_candidates:
  "normalize_candidates ''192.168.0.153'' =
     Inr [''http://192.168.0.153:80/device'', ''http://192.168.0.153:80/fsapi'',
          ''http://192.168.0.153'']"
  by (simp add: normalize_candidates_def strip_def is_space_def with_scheme_def startswith_def
      path_given_def ends_in_root_def endswith_def rstrip_slash_def index_def split1_def)


section \<open>Facts about the service\<close>

lemma ensure_loop_fields:
  "api (ensure_loop s) = api s" "connected (ensure_loop s) = connected s"
  "url_used (ensure_loop s) = url_used s" "pin (ensure_loop s) = pin s"
  "timeout (ensure_loop s) = timeout s" "loop (ensure_loop s)"
  "is_connected (ensure_loop s) = is_connected s"
  by (simp_all add: ensure_loop_def is_connected_def)

lemma ensure_loop_idem: "ensure_loop (ensure_loop s) = ensure_loop s"
  by (simp add: ensure_loop_def)

lemma created_urls_append: "created_urls (xs @ ys) = created_urls xs @ created_urls ys"
  by (induction xs rule: created_urls.induct) simp_all

lemma create_probe_urls:
  "create_probe lib base p t d = (r, d') \<Longrightarrow>
     created_urls (calls d') = created_urls (calls d) @ [base]"
  by (auto simp add: create_probe_def call_create_def call_method_def created_urls_append
      split: prod.splits sum.splits)

lemma failed_attempts_urls:
  "failed_attempts lib p t cs d = Some (es, d') \<Longrightarrow>
     created_urls (calls d') = created_urls (calls d) @ cs \<and> length es = length cs"
proof (induction cs arbitrary: d es)
  case Nil
  then show ?case by simp
next
  case (Cons base rest)
  from Cons.prems obtain e d1 es' where
    cp: "create_probe lib base p t d = (Inl e, d1)" and
    fa: "failed_attempts lib p t rest d1 = Some (es', d')" and es: "es = e # es'"
    by (auto split: prod.splits sum.splits option.splits)
  from Cons.IH[OF fa] create_probe_urls[OF cp] es show ?case by simp
qed

lemma connect_loop_all_fail:
  "failed_attempts lib (pin s) (timeout s) cs d = Some (es, d') \<Longrightarrow>
     connect_loop lib s cs le d =
       ((if cs = [] then s else ensure_loop s), (if es = [] then le else Some (last es)), d')"
proof (induction cs arbitrary: s le d es)
  case Nil
  then show ?case by simp
next
  case (Cons base rest)
  from Cons.prems obtain e d1 es' where
    cp: "create_probe lib base (pin s) (timeout s) d = (Inl e, d1)" and
    fa: "failed_attempts lib (pin s) (timeout s) rest d1 = Some (es', d')" and
    es: "es = e # es'"
    by (auto split: prod.splits sum.splits option.splits)
  from fa have fa':
    "failed_attempts lib (pin (ensure_loop s)) (timeout (ensure_loop s)) rest d1 = Some (es', d')"
    by (simp add: ensure_loop_fields)
  from failed_attempts_urls[OF fa] have len: "(es' = []) = (rest = [])" by auto
  show ?case
    using cp es len Cons.IH[OF fa', of "Some e"]
    by (simp add: run_coro_def ensure_loop_idem)
qed

lemma connect_loop_first_success:
  "failed_attempts lib (pin s) (timeout s) pre d = Some (es, dk) \<Longrightarrow>
   create_probe lib base (pin s) (timeout s) dk = (Inr h, d') \<Longrightarrow>
     connect_loop lib s (pre @ base # post) le d =
       ((ensure_loop s)\<lparr>api := Some h, connected := True, url_used := Some base\<rparr>,
        (if es = [] then le else Some (last es)), d')"
proof (induction pre arbitrary: s le d es)
  case Nil
  then show ?case by (simp add: run_coro_def)
next
  case (Cons b rest)
  from Cons.prems(1) obtain e d1 es' where
    cp: "create_probe lib b (pin s) (timeout s) d = (Inl e, d1)" and
    fa: "failed_attempts lib (pin s) (timeout s) rest d1 = Some (es', dk)" and
    es: "es = e # es'"
    by (auto split: prod.splits sum.splits option.splits)
  from fa have fa':
    "failed_attempts lib (pin (ensure_loop s)) (timeout (ensure_loop s)) rest d1 = Some (es', dk)"
    by (simp add: ensure_loop_fields)
  from Cons.prems(2) have ok:
    "create_probe lib base (pin (ensure_loop s)) (timeout (ensure_loop s)) dk = (Inr h, d')"
    by (simp add: ensure_loop_fields)
  show ?case
    using cp es Cons.IH[OF fa' ok, of "Some e"]
    by (simp add: run_coro_def ensure_loop_idem)
qed

lemma connect_exhausted:
  assumes "installed lib" "normalize_candidates url = Inr cands"
    "failed_attempts lib p t cands d = Some (es, d')"
  shows "connect lib s url p t d =
           (Inl (connect_failed cands (last_of es)),
            \<lparr>loop = (loop s \<or> cands \<noteq> []), api = None, connected = False,
              url_used = None, pin = p, timeout = t\<rparr>, d')"
proof -
  let ?s = "s\<lparr>pin := p, timeout := t, api := None, connected := False, url_used := None\<rparr>"
  have "connect_loop lib ?s cands None d =
       ((if cands = [] then ?s else ensure_loop ?s),
        (if es = [] then None else Some (last es)), d')"
    by (rule connect_loop_all_fail) (simp add: assms)
  then show ?thesis
    using assms(1,2) by (simp add: connect_def last_of_def ensure_loop_def)
qed

lemma guarded_not_connected:
  "\<not> is_connected s \<Longrightarrow> guarded lib s c d = (Inl NotConnected, s, d)"
  by (simp add: guarded_def require_def)

lemma wrappers_not_connected:
  assumes "\<not> is_connected s"
  shows "get_friendly_name lib s d = (Inl NotConnected, s, d)"
    "get_power lib s d = (Inl NotConnected, s, d)"
    "set_power lib s on d = (Inl NotConnected, s, d)"
    "get_volume lib s d = (Inl NotConnected, s, d)"
    "set_volume lib s val d = (Inl NotConnected, s, d)"
    "get_modes lib s d = (Inl NotConnected, s, d)"
    "set_mode lib s mode d = (Inl NotConnected, s, d)"
    "get_presets lib s d = (Inl NotConnected, s, d)"
    "recall_preset lib s preset d = (Inl NotConnected, s, d)"
  by (simp_all add: guarded_not_connected[OF assms] get_friendly_name_def get_power_def
      set_power_def get_volume_def set_volume_def get_modes_def set_mode_def get_presets_def
      recall_preset_def)


subsection \<open>The invariant\<close>








section \<open>An example run\<close>


section \<open>Connecting\<close>

text \<open>
  C1. Let the candidates of the input be \<open>cands\<close> and let candidate \<open>k\<close> be the first one
  for which both the creation and the probe succeed: the attempts on the \<open>k\<close> candidates
  before it all fail, and the attempt on it returns the object \<open>h\<close>. Then \<open>connect\<close>
  returns, the service is connected with \<open>url_used\<close> candidate \<open>k\<close> and the object \<open>h\<close>,
  and the \<open>create\<close> calls made are those for the candidates up to \<open>k\<close>, in order: no
  candidate after \<open>k\<close> is attempted.
\<close>

theorem connect_first_success:
  assumes "installed lib" "normalize_candidates url = Inr cands" "k < length cands"
    "failed_attempts lib p t (take k cands) d = Some (es, dk)"
    "create_probe lib (cands ! k) p t dk = (Inr h, d')"
  shows "connect lib s url p t d =
           (Inr (), \<lparr>loop = True, api = Some h, connected = True,
                     url_used = Some (cands ! k), pin = p, timeout = t\<rparr>, d')
         \<and> is_connected (fst (snd (connect lib s url p t d)))
         \<and> created_urls (calls d') = created_urls (calls d) @ take (Suc k) cands"
proof -
  let ?s = "s\<lparr>pin := p, timeout := t, api := None, connected := False, url_used := None\<rparr>"
  have split: "cands = take k cands @ cands ! k # drop (Suc k) cands"
    using assms(3) by (rule id_take_nth_drop)
  have fa: "failed_attempts lib (pin ?s) (timeout ?s) (take k cands) d = Some (es, dk)"
    using assms(4) by simp
  have ok: "create_probe lib (cands ! k) (pin ?s) (timeout ?s) dk = (Inr h, d')"
    using assms(5) by simp
  have "connect_loop lib ?s (take k cands @ cands ! k # drop (Suc k) cands) None d =
       ((ensure_loop ?s)\<lparr>api := Some h, connected := True, url_used := Some (cands ! k)\<rparr>,
        (if es = [] then None else Some (last es)), d')"
    by (rule connect_loop_first_success[OF fa ok])
  with split have loop: "connect_loop lib ?s cands None d =
       ((ensure_loop ?s)\<lparr>api := Some h, connected := True, url_used := Some (cands ! k)\<rparr>,
        (if es = [] then None else Some (last es)), d')"
    by simp
  have st: "(ensure_loop ?s)\<lparr>api := Some h, connected := True, url_used := Some (cands ! k)\<rparr>
      = \<lparr>loop = True, api = Some h, connected = True,
         url_used = Some (cands ! k), pin = p, timeout = t\<rparr>"
    by (simp add: ensure_loop_def)
  have res: "connect lib s url p t d =
           (Inr (), \<lparr>loop = True, api = Some h, connected = True,
                     url_used = Some (cands ! k), pin = p, timeout = t\<rparr>, d')"
    using assms(1,2) loop st by (simp add: connect_def)
  then have conn: "is_connected (fst (snd (connect lib s url p t d)))"
    by (simp add: is_connected_def)
  from failed_attempts_urls[OF assms(4)] create_probe_urls[OF assms(5)]
  have "created_urls (calls d') = created_urls (calls d) @ take k cands @ [cands ! k]" by simp
  also have "take k cands @ [cands ! k] = take (Suc k) cands"
    using assms(3) by (simp add: take_Suc_conv_app_nth)
  finally show ?thesis using res conn by simp
qed

theorem connect_first_success_witness:
  "connect (fake_radio [''http://192.168.0.153:80/fsapi'', ''http://192.168.0.153''] 5) init
       ''192.168.0.153'' 1234 2 \<lparr>world = 0, calls = []\<rparr> =
     (Inr (), \<lparr>loop = True, api = Some ''http://192.168.0.153:80/fsapi'', connected = True,
               url_used = Some ''http://192.168.0.153:80/fsapi'', pin = 1234, timeout = 2\<rparr>,
      \<lparr>world = 3, calls = [Created ''http://192.168.0.153:80/device'' 1234 2 None,
          Created ''http://192.168.0.153:80/fsapi'' 1234 2 (Some ''http://192.168.0.153:80/fsapi''),
          Called ''http://192.168.0.153:80/fsapi'' GetFriendlyName True]\<rparr>)
   \<and> created_urls [Created ''http://192.168.0.153:80/device'' 1234 2 None,
          Created ''http://192.168.0.153:80/fsapi'' 1234 2 (Some ''http://192.168.0.153:80/fsapi''),
          Called ''http://192.168.0.153:80/fsapi'' GetFriendlyName (True :: bool)
            :: (string, string) event]
      = [''http://192.168.0.153:80/device'', ''http://192.168.0.153:80/fsapi'']"
proof -
  let ?lib = "fake_radio [''http://192.168.0.153:80/fsapi'', ''http://192.168.0.153''] 5"
  let ?cands = "[''http://192.168.0.153:80/device'', ''http://192.168.0.153:80/fsapi'',
          ''http://192.168.0.153'']"
  let ?d0 = "\<lparr>world = 0::nat, calls = [] :: (string, string) event list\<rparr>"
  let ?d1 = "\<lparr>world = 1::nat, calls = [Created ''http://192.168.0.153:80/device'' 1234 2 None
                :: (string, string) event]\<rparr>"
  let ?d2 = "\<lparr>world = 3::nat, calls = [Created ''http://192.168.0.153:80/device'' 1234 2 None,
          Created ''http://192.168.0.153:80/fsapi'' 1234 2 (Some ''http://192.168.0.153:80/fsapi''),
          Called ''http://192.168.0.153:80/fsapi'' GetFriendlyName True
            :: (string, string) event]\<rparr>"
  have h1: "installed ?lib" by (simp add: fake_radio_def)
  have h3: "1 < length ?cands" by simp
  have h4: "failed_attempts ?lib 1234 2 (take 1 ?cands) ?d0
              = Some ([PyExc ''ConnectionError''
                         ''cannot reach http://192.168.0.153:80/device''], ?d1)"
    by (simp add: create_probe_def call_create_def fake_radio_def)
  have h5: "create_probe ?lib (?cands ! 1) 1234 2 ?d1
              = (Inr ''http://192.168.0.153:80/fsapi'', ?d2)"
    by (simp add: create_probe_def call_create_def call_method_def fake_radio_def)
  show ?thesis
    using connect_first_success[OF h1 default_candidates h3 h4 h5, of init] by simp
qed

text \<open>
  C2. When every candidate fails (its creation or its probe raises), \<open>connect\<close> raises
  one error after the last candidate: its text names all the candidates and the error
  of the last attempt (\<open>None\<close> when there was no candidate at all). No failure left the
  loop early: there is one \<open>create\<close> call for each candidate, in order, and one caught
  error for each. Afterwards the session has no object and no URL, and \<open>is_connected\<close>
  is false.
\<close>

theorem connect_all_fail:
  assumes "installed lib" "normalize_candidates url = Inr cands"
    "failed_attempts lib p t cands d = Some (es, d')"
  shows "connect lib s url p t d =
           (Inl (RuntimeError (''Could not connect to the radio. Tried: '' @ join '', '' cands
                              @ ''. Last error: '' @ str_err (last_of es))),
            \<lparr>loop = (loop s \<or> cands \<noteq> []), api = None, connected = False,
              url_used = None, pin = p, timeout = t\<rparr>, d')
         \<and> \<not> is_connected (fst (snd (connect lib s url p t d)))
         \<and> created_urls (calls d') = created_urls (calls d) @ cands
         \<and> length es = length cands"
proof -
  have res: "connect lib s url p t d =
           (Inl (connect_failed cands (last_of es)),
            \<lparr>loop = (loop s \<or> cands \<noteq> []), api = None, connected = False,
              url_used = None, pin = p, timeout = t\<rparr>, d')"
    using assms by (rule connect_exhausted)
  then have "\<not> is_connected (fst (snd (connect lib s url p t d)))"
    by (simp add: is_connected_def)
  with res failed_attempts_urls[OF assms(3)] show ?thesis
    by (simp add: connect_failed_def)
qed

theorem connect_all_fail_witness:
  "connect (fake_radio [''http://192.168.0.153:80/device''] 0) init ''192.168.0.153'' 1234 2
       \<lparr>world = 0, calls = []\<rparr> =
     (Inl (PyExc ''RuntimeError'' (''Could not connect to the radio. Tried: '' @
            ''http://192.168.0.153:80/device, http://192.168.0.153:80/fsapi, '' @
            ''http://192.168.0.153. Last error: cannot reach http://192.168.0.153'')),
      \<lparr>loop = True, api = None, connected = False, url_used = None, pin = 1234, timeout = 2\<rparr>,
      \<lparr>world = 4, calls = [
          Created ''http://192.168.0.153:80/device'' 1234 2
            (Some ''http://192.168.0.153:80/device''),
          Called ''http://192.168.0.153:80/device'' GetFriendlyName False,
          Created ''http://192.168.0.153:80/fsapi'' 1234 2 None,
          Created ''http://192.168.0.153'' 1234 2 None]\<rparr>)"
proof -
  let ?lib = "fake_radio [''http://192.168.0.153:80/device''] 0"
  let ?cands = "[''http://192.168.0.153:80/device'', ''http://192.168.0.153:80/fsapi'',
          ''http://192.168.0.153'']"
  let ?d0 = "\<lparr>world = 0::nat, calls = [] :: (string, string) event list\<rparr>"
  let ?d' = "\<lparr>world = 4::nat, calls = [
          Created ''http://192.168.0.153:80/device'' 1234 2
            (Some ''http://192.168.0.153:80/device''),
          Called ''http://192.168.0.153:80/device'' GetFriendlyName False,
          Created ''http://192.168.0.153:80/fsapi'' 1234 2 None,
          Created ''http://192.168.0.153'' 1234 2 None :: (string, string) event]\<rparr>"
  have h1: "installed ?lib" by (simp add: fake_radio_def)
  have h3: "failed_attempts ?lib 1234 2 ?cands ?d0
              = Some ([PyExc ''TimeoutError'' ''no answer from http://192.168.0.153:80/device'',
                       PyExc ''ConnectionError'' ''cannot reach http://192.168.0.153:80/fsapi'',
                       PyExc ''ConnectionError'' ''cannot reach http://192.168.0.153''], ?d')"
    by (simp add: create_probe_def call_create_def call_method_def fake_radio_def)
  show ?thesis
    using connect_all_fail[OF h1 default_candidates h3, of init]
    by (simp add: RuntimeError_def last_of_def str_err_def init_def)
qed

section \<open>The guarded commands\<close>

text \<open>
  C3. When \<open>is_connected\<close> is false, each of the nine guarded commands (get friendly
  name, get and set power, get and set volume, list modes, set mode, list presets,
  recall preset) fails at once with the not-connected error; the service is as before
  and so is the device state: its call list has no new entry, no call reached the
  library.
\<close>

theorem guard_not_connected:
  assumes "\<not> is_connected s"
  shows "get_friendly_name lib s d = (Inl NotConnected, s, d)
       \<and> get_power lib s d = (Inl NotConnected, s, d)
       \<and> set_power lib s on d = (Inl NotConnected, s, d)
       \<and> get_volume lib s d = (Inl NotConnected, s, d)
       \<and> set_volume lib s val d = (Inl NotConnected, s, d)
       \<and> get_modes lib s d = (Inl NotConnected, s, d)
       \<and> set_mode lib s mode d = (Inl NotConnected, s, d)
       \<and> get_presets lib s d = (Inl NotConnected, s, d)
       \<and> recall_preset lib s preset d = (Inl NotConnected, s, d)"
  by (simp add: wrappers_not_connected[OF assms])

theorem guard_not_connected_witness:
  "\<not> is_connected (init :: string radio_service)
   \<and> get_volume (fake_radio [''http://192.168.0.153:80/fsapi''] 3) init
        \<lparr>world = 0, calls = []\<rparr>
       = (Inl (PyExc ''RuntimeError'' ''Not connected to a radio.''), init,
          \<lparr>world = 0, calls = []\<rparr>)
   \<and> recall_preset (fake_radio [''http://192.168.0.153:80/fsapi''] 3) init ''1''
        \<lparr>world = 0, calls = []\<rparr>
       = (Inl (PyExc ''RuntimeError'' ''Not connected to a radio.''), init,
          \<lparr>world = 0, calls = []\<rparr>)"
proof -
  have h: "\<not> is_connected (init :: string radio_service)"
    by (simp add: is_connected_def init_def)
  show ?thesis
    using h guard_not_connected[OF h, of "fake_radio [''http://192.168.0.153:80/fsapi''] 3"
        "\<lparr>world = 0, calls = []\<rparr>" _ _ _ "''1''"]
    by (simp add: NotConnected_def RuntimeError_def)
qed



section \<open>The session invariant\<close>



section \<open>Clearing the session\<close>




section \<open>The resolver on the documented inputs\<close>

text \<open>
  C8. The input \<open>192.168.0.153\<close> (an address with no port) gives exactly the three
  candidates \<open>http://192.168.0.153:80/device\<close>, \<open>http://192.168.0.153:80/fsapi\<close> and
  \<open>http://192.168.0.153\<close>, in this order, and no candidate occurs twice.
\<close>

theorem resolve_default_address:
  "normalize_candidates ''192.168.0.153'' =
     Inr [''http://192.168.0.153:80/device'', ''http://192.168.0.153:80/fsapi'',
          ''http://192.168.0.153'']
   \<and> distinct [''http://192.168.0.153:80/device'', ''http://192.168.0.153:80/fsapi'',
          ''http://192.168.0.153'']"
  by (simp add: normalize_candidates_def strip_def is_space_def with_scheme_def startswith_def
      path_given_def ends_in_root_def endswith_def rstrip_slash_def index_def split1_def)

text \<open>
  C9. When the trimmed input, with the scheme put in front where it has none, ends in
  \<open>/device\<close> or \<open>/fsapi\<close>, with or without one more slash, this URL is the only
  candidate. In particular \<open>10.0.0.5:8080/fsapi\<close> gives \<open>http://10.0.0.5:8080/fsapi\<close>
  and nothing else.
\<close>

theorem resolve_explicit_path:
  "(ends_in_root (with_scheme (strip user_input)) \<longrightarrow>
      normalize_candidates user_input = Inr [with_scheme (strip user_input)])
   \<and> normalize_candidates ''10.0.0.5:8080/fsapi'' = Inr [''http://10.0.0.5:8080/fsapi'']"
proof
  show "ends_in_root (with_scheme (strip user_input)) \<longrightarrow>
      normalize_candidates user_input = Inr [with_scheme (strip user_input)]"
    using with_scheme_empty
    by (auto simp add: normalize_candidates_def Let_def path_given_def)
  show "normalize_candidates ''10.0.0.5:8080/fsapi'' = Inr [''http://10.0.0.5:8080/fsapi'']"
    by (simp add: normalize_candidates_def strip_def is_space_def with_scheme_def
        startswith_def path_given_def ends_in_root_def endswith_def)
qed

theorem resolve_explicit_path_witness:
  "ends_in_root (with_scheme (strip '' https://radio.local/device/ ''))
   \<and> normalize_candidates '' https://radio.local/device/ '' = Inr [''https://radio.local/device/'']"
proof -
  have s: "with_scheme (strip '' https://radio.local/device/ '') = ''https://radio.local/device/''"
    by (simp add: strip_def is_space_def with_scheme_def startswith_def)
  have h: "ends_in_root (with_scheme (strip '' https://radio.local/device/ ''))"
    unfolding s by (simp add: ends_in_root_def endswith_def)
  from h resolve_explicit_path[of "'' https://radio.local/device/ ''"]
  have "normalize_candidates '' https://radio.local/device/ '' =
          Inr [with_scheme (strip '' https://radio.local/device/ '')]"
    by blast
  with h show ?thesis by (simp only: s)
qed

text \<open>
  C10. When the trimmed input begins with \<open>https://\<close>, no scheme is put in front of it,
  and every candidate the resolver returns begins with \<open>https://\<close> (so none begins with
  \<open>http://\<close>).
\<close>

theorem resolve_keeps_https:
  assumes "startswith (strip user_input) ''https://''"
  shows "with_scheme (strip user_input) = strip user_input \<and>
    (\<forall>cs. normalize_candidates user_input = Inr cs \<longrightarrow>
       (\<forall>c\<in>set cs. startswith c ''https://'' \<and> \<not> startswith c ''http://''))"
proof -
  from startswith_split[OF assms] obtain r where r: "strip user_input = ''https://'' @ r"
    by simp
  have "with_scheme (strip user_input) = strip user_input"
    using assms by (simp add: with_scheme_def)
  moreover have "startswith c ''https://'' \<and> \<not> startswith c ''http://''"
    if "normalize_candidates user_input = Inr cs" "c \<in> set cs" for cs c
  proof -
    from candidates_https[OF that(1) r that(2)] obtain x where "c = ''https://'' @ x" ..
    then show ?thesis
      using startswith_append[of "''https://''" x] https_not_http[of x] by simp
  qed
  ultimately show ?thesis by blast
qed

theorem resolve_keeps_https_witness:
  "startswith (strip '' https://radio.local:8443/ '') ''https://''
   \<and> normalize_candidates '' https://radio.local:8443/ '' =
       Inr [''https://radio.local:8443/device'', ''https://radio.local:8443/fsapi'',
            ''https://radio.local:8443'']
   \<and> startswith ''https://radio.local:8443/device'' ''https://''
   \<and> startswith ''https://radio.local:8443/fsapi'' ''https://''
   \<and> startswith ''https://radio.local:8443'' ''https://''"
proof -
  have s: "strip '' https://radio.local:8443/ '' = ''https://radio.local:8443/''"
    by (simp add: strip_def is_space_def)
  have h: "startswith (strip '' https://radio.local:8443/ '') ''https://''"
    unfolding s by (simp add: startswith_def)
  have n: "normalize_candidates '' https://radio.local:8443/ '' =
       Inr [''https://radio.local:8443/device'', ''https://radio.local:8443/fsapi'',
            ''https://radio.local:8443'']"
    by (simp add: normalize_candidates_def s with_scheme_def startswith_def path_given_def
        ends_in_root_def endswith_def rstrip_slash_def index_def split1_def)
  from resolve_keeps_https[OF h] n
  have "\<forall>c\<in>set [''https://radio.local:8443/device'', ''https://radio.local:8443/fsapi'',
            ''https://radio.local:8443'']. startswith c ''https://''"
    by blast
  with h n show ?thesis by simp
qed

end
